theory Spec2Isabelle
  imports Main "HOL-Library.Sublist" "HOL-Library.Monad_Syntax"
begin

section \<open>Python primitives used by glustercli/cli.py\<close>

text \<open>
  The module is Python 2: a captured stream is a byte string, so \<open>string\<close> (a list of
  8-bit characters) is its model. \<open>str.lower\<close> and \<open>str.upper\<close> change the ASCII
  letters only; \<open>str.strip\<close> removes the six ASCII whitespace characters at both ends.
  Python's \<open>a in b\<close>, \<open>b.startswith(a)\<close> and \<open>b.endswith(a)\<close> on strings are
  \<open>sublist a b\<close>, \<open>prefix a b\<close> and \<open>suffix a b\<close>.
\<close>

definition lower_char :: "char \<Rightarrow> char" where
  "lower_char c =
     (let n = (of_char c :: nat) in if 65 \<le> n \<and> n \<le> 90 then char_of (n + 32) else c)"

definition upper_char :: "char \<Rightarrow> char" where
  "upper_char c =
     (let n = (of_char c :: nat) in if 97 \<le> n \<and> n \<le> 122 then char_of (n - 32) else c)"

definition lower :: "string \<Rightarrow> string" where
  "lower s = map lower_char s"

definition upper :: "string \<Rightarrow> string" where
  "upper s = map upper_char s"

definition is_space :: "char \<Rightarrow> bool" where
  "is_space c = (let n = (of_char c :: nat) in n = 32 \<or> (9 \<le> n \<and> n \<le> 13))"

definition strip :: "string \<Rightarrow> string" where
  "strip s = rev (dropWhile is_space (rev (dropWhile is_space s)))"

text \<open>\<open>s.replace(a, b)\<close> where \<open>a\<close> and \<open>b\<close> are one character each.\<close>

definition replace1 :: "char \<Rightarrow> char \<Rightarrow> string \<Rightarrow> string" where
  "replace1 a b s = map (\<lambda>c. if c = a then b else c) s"

text \<open>\<open>sep.join(xs)\<close>.\<close>

fun join :: "string \<Rightarrow> string list \<Rightarrow> string" where
  "join sep [] = []"
| "join sep [x] = x"
| "join sep (x # y # ys) = x @ sep @ join sep (y # ys)"

text \<open>
  \<open>int(s)\<close> on a byte string: optional ASCII whitespace around an optional sign and
  at least one decimal digit; anything else raises ValueError (\<open>None\<close> here).
\<close>

definition is_digit :: "char \<Rightarrow> bool" where
  "is_digit c = (let n = (of_char c :: nat) in 48 \<le> n \<and> n \<le> 57)"

definition digits_value :: "string \<Rightarrow> int" where
  "digits_value ds = foldl (\<lambda>a c. 10 * a + (of_char c - 48)) 0 ds"

definition py_int :: "string \<Rightarrow> int option" where
  "py_int s =
     (let t = strip s;
          neg = (t \<noteq> [] \<and> hd t = CHR ''-'');
          ds = (if t \<noteq> [] \<and> (hd t = CHR ''-'' \<or> hd t = CHR ''+'') then tl t else t)
      in if ds \<noteq> [] \<and> list_all is_digit ds
         then Some (if neg then - digits_value ds else digits_value ds)
         else None)"

section \<open>What the command executor hands back\<close>

text \<open>
  \<open>utils.execCmd(cmd)\<close> returns \<open>(rc, out, err)\<close>. The module treats a stream as a
  string almost everywhere (\<open>(out + err).lower()\<close>, \<open>out.strip()\<close>,
  \<open>etree.fromstring(out)\<close>) and as a sequence of lines in one place
  (\<open>"\\n".join(out)\<close>, \<open>out[0].strip()\<close>). Both shapes are kept, with the
  exceptions Python raises when an operation does not fit the shape.
\<close>

datatype pyval = PyStr string | PyList "string list"

section \<open>XML trees\<close>

text \<open>
  An \<open>etree\<close> element: its tag, its text (\<open>None\<close> for an element with no text) and
  its children in document order. \<open>findall p el\<close> is \<open>el.findall('a/b/c')\<close> for the
  path \<open>p = [a, b, c]\<close> of plain tags, and \<open>find_path p el\<close> is \<open>el.find('a/b/c')\<close>:
  the first match, or \<open>None\<close>.
\<close>

datatype element = Element (el_tag: string) (el_text: "string option") (el_children: "element list")

fun findall :: "string list \<Rightarrow> element \<Rightarrow> element list" where
  "findall [] el = [el]"
| "findall (t # ts) el =
     concat (map (findall ts) (filter (\<lambda>c. el_tag c = t) (el_children el)))"

definition find_path :: "string list \<Rightarrow> element \<Rightarrow> element option" where
  "find_path p el = (case findall p el of [] \<Rightarrow> None | x # _ \<Rightarrow> Some x)"

section \<open>Exceptions\<close>

text \<open>
  \<open>GlusterXMLError(cmd, xml)\<close> carries the command and either the raw output or the
  decoded tree (\<open>etree.tostring(xmltree)\<close>). \<open>GlusterBusy(cmd, rc, out, err)\<close> and
  \<open>GlusterCmdFailed(cmd, rc, err=msg)\<close> are the two subclasses of
  \<open>utils.CmdExecFailed\<close>; \<open>msg\<close> is the text of \<open>opErrstr\<close>, \<open>None\<close> when that
  element is empty. The other constructors are the Python exceptions the module can
  raise without handling them.
\<close>

datatype xmlsrc = RawXml pyval | TreeXml element

datatype error =
    GlusterXMLError "string list" xmlsrc
  | GlusterCmdFailed "string list" int "string option"
  | GlusterBusy "string list" int pyval pyval
  | ParseError
  | AttributeError
  | ValueError
  | TypeError
  | IndexError
  | KeyError
  | NameError string

text \<open>\<open>_etreeExceptions = (etree.ParseError, AttributeError, ValueError)\<close>.\<close>

definition etreeExceptions :: "error \<Rightarrow> bool" where
  "etreeExceptions e = (e = ParseError \<or> e = AttributeError \<or> e = ValueError)"

section \<open>The environment\<close>

text \<open>
  The module \<open>utils\<close> and the XML parser are outside \<open>cli.py\<close>; they are parameters:
  \<open>execCmd\<close> is \<open>utils.execCmd\<close>, \<open>fromstring\<close> is \<open>etree.fromstring\<close> (\<open>None\<close> when
  it raises ParseError) and \<open>glusterCmd\<close> is \<open>_glusterCommandPath.cmd\<close>.
\<close>

record env =
  execCmd :: "string list \<Rightarrow> int \<times> pyval \<times> pyval"
  fromstring :: "string \<Rightarrow> element option"
  glusterCmd :: string

definition getGlusterVolCmd :: "env \<Rightarrow> string list" where
  "getGlusterVolCmd env = [glusterCmd env, ''--mode=script'', ''volume'']"

definition getGlusterPeerCmd :: "env \<Rightarrow> string list" where
  "getGlusterPeerCmd env = [glusterCmd env, ''--mode=script'', ''peer'']"

definition getGlusterSystemCmd :: "env \<Rightarrow> string list" where
  "getGlusterSystemCmd env = [glusterCmd env, ''system::'']"

definition getGlusterVolGeoRepCmd :: "env \<Rightarrow> string list" where
  "getGlusterVolGeoRepCmd env = getGlusterVolCmd env @ [''geo-replication'']"

definition getGlusterSnapshotCmd :: "env \<Rightarrow> string list" where
  "getGlusterSnapshotCmd env = [glusterCmd env, ''--mode=script'', ''snapshot'']"

section \<open>Running a command\<close>

definition TRANS_IN_PROGRESS :: string where
  "TRANS_IN_PROGRESS = ''another transaction is in progress''"

text \<open>\<open>out + err\<close>: two strings or two lists; a string and a list raise TypeError.\<close>

fun py_add :: "pyval \<Rightarrow> pyval \<Rightarrow> error + pyval" where
  "py_add (PyStr a) (PyStr b) = Inr (PyStr (a @ b))"
| "py_add (PyList a) (PyList b) = Inr (PyList (a @ b))"
| "py_add _ _ = Inl TypeError"

text \<open>\<open>o.lower()\<close>: a list has no such attribute.\<close>

fun py_lower :: "pyval \<Rightarrow> error + string" where
  "py_lower (PyStr a) = Inr (lower a)"
| "py_lower (PyList a) = Inl AttributeError"

definition throwIfBusy :: "string list \<Rightarrow> int \<Rightarrow> pyval \<Rightarrow> pyval \<Rightarrow> error + unit" where
  "throwIfBusy cmd rc out err =
     (case py_add out err of
        Inl e \<Rightarrow> Inl e
      | Inr both \<Rightarrow>
          (case py_lower both of
             Inl e \<Rightarrow> Inl e
           | Inr l \<Rightarrow>
               if sublist TRANS_IN_PROGRESS l then Inl (GlusterBusy cmd rc out err)
               else Inr ()))"

definition execGluster :: "env \<Rightarrow> string list \<Rightarrow> error + (int \<times> pyval \<times> pyval)" where
  "execGluster env cmd =
     (case execCmd env cmd of
        (rc, out, err) \<Rightarrow>
          (case throwIfBusy cmd rc out err of
             Inl e \<Rightarrow> Inl e
           | Inr _ \<Rightarrow> Inr (rc, out, err)))"

text \<open>
  The body of the \<open>try\<close> block of \<open>_execGlusterXml\<close>: parse the output, then read
  \<open>opRet\<close>, \<open>opErrstr\<close> and \<open>opErrno\<close> in that order. \<open>find\<close> returning \<open>None\<close> makes
  \<open>.text\<close> raise AttributeError; \<open>int\<close> of a \<open>None\<close> text raises TypeError and \<open>int\<close> of
  a string that is no number raises ValueError.
\<close>

definition int_of_text :: "string option \<Rightarrow> error + int" where
  "int_of_text t =
     (case t of
        None \<Rightarrow> Inl TypeError
      | Some s \<Rightarrow> (case py_int s of None \<Rightarrow> Inl ValueError | Some n \<Rightarrow> Inr n))"

definition parseEnvelope :: "env \<Rightarrow> pyval \<Rightarrow> error + (element \<times> int \<times> string option \<times> int)" where
  "parseEnvelope env out =
     (case out of
        PyList _ \<Rightarrow> Inl TypeError
      | PyStr s \<Rightarrow>
          (case fromstring env s of
             None \<Rightarrow> Inl ParseError
           | Some tree \<Rightarrow>
               (case find_path [''opRet''] tree of
                  None \<Rightarrow> Inl AttributeError
                | Some r \<Rightarrow>
                    (case int_of_text (el_text r) of
                       Inl e \<Rightarrow> Inl e
                     | Inr rv \<Rightarrow>
                         (case find_path [''opErrstr''] tree of
                            None \<Rightarrow> Inl AttributeError
                          | Some m \<Rightarrow>
                              (case find_path [''opErrno''] tree of
                                 None \<Rightarrow> Inl AttributeError
                               | Some n \<Rightarrow>
                                   (case int_of_text (el_text n) of
                                      Inl e \<Rightarrow> Inl e
                                    | Inr errNo \<Rightarrow> Inr (tree, rv, el_text m, errNo))))))))"

text \<open>
  Lines 151 to 165 of \<open>_execGlusterXml\<close>, for the command \<open>cmd\<close> as it stands after
  \<open>cmd.append('--xml')\<close>: the \<open>try\<close> block with its handler, then the outcome check.
\<close>

definition decodeEnvelope :: "env \<Rightarrow> string list \<Rightarrow> pyval \<Rightarrow> error + element" where
  "decodeEnvelope env cmd out =
     (case parseEnvelope env out of
        Inl e \<Rightarrow> if etreeExceptions e then Inl (GlusterXMLError cmd (RawXml out)) else Inl e
      | Inr (tree, rv, msg, errNo) \<Rightarrow>
          if rv = 0 then Inr tree
          else Inl (GlusterCmdFailed cmd (if errNo \<noteq> 0 then errNo else rv) msg))"

text \<open>
  \<open>cmd.append('--xml')\<close> changes the caller's list: the command that runs, and that
  every exception carries, ends in \<open>--xml\<close>.
\<close>

definition execGlusterXml :: "env \<Rightarrow> string list \<Rightarrow> error + element" where
  "execGlusterXml env cmd0 =
     (let cmd = cmd0 @ [''--xml''] in
      case execCmd env cmd of
        (rc, out, err) \<Rightarrow>
          (case throwIfBusy cmd rc out err of
             Inl e \<Rightarrow> Inl e
           | Inr _ \<Rightarrow> decodeEnvelope env cmd out))"

section \<open>Dictionaries and optional arguments\<close>

text \<open>
  A Python dictionary, as the list of its items: \<open>d[k] = v\<close> replaces the value of a
  key that is present and adds the item otherwise.
\<close>

fun dict_set :: "('k \<times> 'v) list \<Rightarrow> 'k \<Rightarrow> 'v \<Rightarrow> ('k \<times> 'v) list" where
  "dict_set [] k v = [(k, v)]"
| "dict_set ((k', v') # d) k v = (if k' = k then (k, v) # d else (k', v') # dict_set d k v)"

text \<open>
  \<open>if x:\<close> on an optional string argument: \<open>None\<close> and the empty string are false.
\<close>

definition truthy :: "string option \<Rightarrow> bool" where
  "truthy x = (case x of None \<Rightarrow> False | Some s \<Rightarrow> s \<noteq> [])"

text \<open>
  \<open>el.find(p).text\<close>: \<open>None\<close> when \<open>find\<close> returns \<open>None\<close> (AttributeError), otherwise the
  text, itself optional. \<open>str_at\<close> is \<open>el.find(p).text\<close> followed by a string method,
  which raises AttributeError on a \<open>None\<close> text as well.
\<close>

definition text_at :: "string list \<Rightarrow> element \<Rightarrow> string option option" where
  "text_at p el = map_option el_text (find_path p el)"

definition str_at :: "string list \<Rightarrow> element \<Rightarrow> string option" where
  "str_at p el = (case find_path p el of None \<Rightarrow> None | Some e \<Rightarrow> el_text e)"

section \<open>Volume info\<close>

datatype VolumeStatus = ONLINE | OFFLINE

datatype TransportType = TCP | RDMA

record brickDetail =
  bd_name :: "string option"
  bd_hostUuid :: "string option"

record volume =
  volumeName :: "string option"
  uuid :: "string option"
  volumeType :: string
  volumeStatus :: VolumeStatus
  brickCount :: "string option"
  distCount :: "string option"
  stripeCount :: "string option"
  replicaCount :: "string option"
  transportType :: "TransportType list"
  bricks :: "string option list"
  options :: "(string option \<times> string option) list"
  bricksInfo :: "brickDetail list"

text \<open>Lines 335 to 340: the three-way decode of the text of \<open>transport\<close>.\<close>

definition transportTypeOf :: "string option \<Rightarrow> TransportType list" where
  "transportTypeOf t =
     (if t = Some ''0'' then [TCP]
      else if t = Some ''1'' then [RDMA]
      else [TCP, RDMA])"

text \<open>The loop over \<open>options/option\<close>; a missing \<open>name\<close> or \<open>value\<close> raises.\<close>

fun parseOptions ::
  "element list \<Rightarrow> (string option \<times> string option) list
     \<Rightarrow> (string option \<times> string option) list option" where
  "parseOptions [] d = Some d"
| "parseOptions (e # es) d =
     do {
       v \<leftarrow> text_at [''value''] e;
       n \<leftarrow> text_at [''name''] e;
       parseOptions es (dict_set d n v)
     }"

text \<open>
  The second loop over \<open>bricks/brick\<close>: the first brick without a \<open>name\<close> or a
  \<open>hostUuid\<close> child ends the loop (\<open>except AttributeError: break\<close>).
\<close>

fun parseBricksInfo :: "element list \<Rightarrow> brickDetail list" where
  "parseBricksInfo [] = []"
| "parseBricksInfo (d # ds) =
     (case text_at [''name''] d of
        None \<Rightarrow> []
      | Some n \<Rightarrow>
          (case text_at [''hostUuid''] d of
             None \<Rightarrow> []
           | Some h \<Rightarrow> \<lparr>bd_name = n, bd_hostUuid = h\<rparr> # parseBricksInfo ds))"

text \<open>The body of the loop of \<open>_parseVolumeInfo\<close>, for one \<open>volume\<close> element.\<close>

definition parseVolume :: "element \<Rightarrow> volume option" where
  "parseVolume el =
     do {
       name \<leftarrow> text_at [''name''] el;
       vid \<leftarrow> text_at [''id''] el;
       typeStr \<leftarrow> str_at [''typeStr''] el;
       statusStr \<leftarrow> str_at [''statusStr''] el;
       nbricks \<leftarrow> text_at [''brickCount''] el;
       ndist \<leftarrow> text_at [''distCount''] el;
       nstripe \<leftarrow> text_at [''stripeCount''] el;
       nreplica \<leftarrow> text_at [''replicaCount''] el;
       transport \<leftarrow> text_at [''transport''] el;
       opts \<leftarrow> parseOptions (findall [''options'', ''option''] el) [];
       Some \<lparr>volumeName = name,
             uuid = vid,
             volumeType = replace1 CHR ''-'' CHR ''_'' (upper typeStr),
             volumeStatus = (if upper statusStr = ''STARTED'' then ONLINE else OFFLINE),
             brickCount = nbricks,
             distCount = ndist,
             stripeCount = nstripe,
             replicaCount = nreplica,
             transportType = transportTypeOf transport,
             bricks = map el_text (findall [''bricks'', ''brick''] el),
             options = opts,
             bricksInfo = parseBricksInfo (findall [''bricks'', ''brick''] el)\<rparr>
     }"

fun parseVolumes ::
  "element list \<Rightarrow> (string option \<times> volume) list \<Rightarrow> (string option \<times> volume) list option" where
  "parseVolumes [] volumes = Some volumes"
| "parseVolumes (el # els) volumes =
     do {
       v \<leftarrow> parseVolume el;
       parseVolumes els (dict_set volumes (volumeName v) v)
     }"

definition parseVolumeInfo :: "element \<Rightarrow> (string option \<times> volume) list option" where
  "parseVolumeInfo tree = parseVolumes (findall [''volInfo'', ''volumes'', ''volume''] tree) []"

definition volumeInfo ::
  "env \<Rightarrow> string option \<Rightarrow> string option \<Rightarrow> error + (string option \<times> volume) list" where
  "volumeInfo env volName remoteServer =
     (let command = getGlusterVolCmd env @ [''info'']
                    @ (if truthy remoteServer then [''--remote-host='' @ the remoteServer] else [])
                    @ (if truthy volName then [the volName] else [])
      in case execGlusterXml env command of
           Inl e \<Rightarrow> Inl e
         | Inr xmltree \<Rightarrow>
             (case parseVolumeInfo xmltree of
                None \<Rightarrow> Inl (GlusterXMLError (command @ [''--xml'']) (TreeXml xmltree))
              | Some volumes \<Rightarrow> Inr volumes))"

section \<open>Rebalance and remove-brick status\<close>

record rebalanceEntry =
  rb_runtime :: "string option"
  rb_filesScanned :: "string option"
  rb_filesMoved :: "string option"
  rb_filesFailed :: "string option"
  rb_filesSkipped :: "string option"
  rb_totalSizeMoved :: "string option"
  rb_status :: string

record rebalanceHost = rebalanceEntry +
  rb_name :: "string option"
  rb_id :: "string option"

record rebalanceStatus =
  rb_summary :: rebalanceEntry
  rb_hosts :: "rebalanceHost list"

text \<open>
  Lines 566 and 575 (and 580 and 589):
  \<open>st.replace(' ', '_').replace('-', '_')\<close>, then \<open>statusStr.upper()\<close>.
\<close>

definition rebalanceStatusStr :: "string \<Rightarrow> string" where
  "rebalanceStatusStr st = upper (replace1 CHR ''-'' CHR ''_'' (replace1 CHR '' '' CHR ''_'' st))"

definition parseRebalanceNode :: "element \<Rightarrow> rebalanceHost option" where
  "parseRebalanceNode el =
     do {
       st \<leftarrow> str_at [''statusStr''] el;
       nodeName \<leftarrow> text_at [''nodeName''] el;
       nid \<leftarrow> text_at [''id''] el;
       runtime \<leftarrow> text_at [''runtime''] el;
       lookups \<leftarrow> text_at [''lookups''] el;
       files \<leftarrow> text_at [''files''] el;
       failures \<leftarrow> text_at [''failures''] el;
       skipped \<leftarrow> text_at [''skipped''] el;
       sz \<leftarrow> text_at [''size''] el;
       Some \<lparr>rb_runtime = runtime, rb_filesScanned = lookups, rb_filesMoved = files,
             rb_filesFailed = failures, rb_filesSkipped = skipped, rb_totalSizeMoved = sz,
             rb_status = rebalanceStatusStr st, rb_name = nodeName, rb_id = nid\<rparr>
     }"

fun parseRebalanceNodes :: "element list \<Rightarrow> rebalanceHost list option" where
  "parseRebalanceNodes [] = Some []"
| "parseRebalanceNodes (el # els) =
     do {
       h \<leftarrow> parseRebalanceNode el;
       hs \<leftarrow> parseRebalanceNodes els;
       Some (h # hs)
     }"

definition parseRebalanceTree :: "element \<Rightarrow> rebalanceStatus option" where
  "parseRebalanceTree tree =
     do {
       st \<leftarrow> str_at [''aggregate'', ''statusStr''] tree;
       runtime \<leftarrow> text_at [''aggregate'', ''runtime''] tree;
       lookups \<leftarrow> text_at [''aggregate'', ''lookups''] tree;
       files \<leftarrow> text_at [''aggregate'', ''files''] tree;
       failures \<leftarrow> text_at [''aggregate'', ''failures''] tree;
       skipped \<leftarrow> text_at [''aggregate'', ''skipped''] tree;
       sz \<leftarrow> text_at [''aggregate'', ''size''] tree;
       hosts \<leftarrow> parseRebalanceNodes (findall [''node''] tree);
       Some \<lparr>rb_summary =
               \<lparr>rb_runtime = runtime, rb_filesScanned = lookups, rb_filesMoved = files,
                rb_filesFailed = failures, rb_filesSkipped = skipped,
                rb_totalSizeMoved = sz, rb_status = rebalanceStatusStr st\<rparr>,
             rb_hosts = hosts\<rparr>
     }"

text \<open>
  The outer \<open>option\<close> is the AttributeError, the inner one the \<open>None\<close> that the function
  returns for a mode that is neither \<open>rebalance\<close> nor \<open>remove-brick\<close>.
\<close>

definition parseVolumeRebalanceRemoveBrickStatus ::
  "element \<Rightarrow> string \<Rightarrow> rebalanceStatus option option" where
  "parseVolumeRebalanceRemoveBrickStatus xmltree mode =
     (if mode = ''rebalance'' then
        do {
          tree \<leftarrow> find_path [''volRebalance''] xmltree;
          s \<leftarrow> parseRebalanceTree tree;
          Some (Some s)
        }
      else if mode = ''remove-brick'' then
        do {
          tree \<leftarrow> find_path [''volRemoveBrick''] xmltree;
          s \<leftarrow> parseRebalanceTree tree;
          Some (Some s)
        }
      else Some None)"

definition volumeRebalanceStatus :: "env \<Rightarrow> string \<Rightarrow> error + rebalanceStatus option" where
  "volumeRebalanceStatus env volName =
     (let command = getGlusterVolCmd env @ [''rebalance'', volName, ''status'']
      in case execGlusterXml env command of
           Inl e \<Rightarrow> Inl e
         | Inr xmltree \<Rightarrow>
             (case parseVolumeRebalanceRemoveBrickStatus xmltree ''rebalance'' of
                None \<Rightarrow> Inl (GlusterXMLError (command @ [''--xml'']) (TreeXml xmltree))
              | Some r \<Rightarrow> Inr r))"

section \<open>Volume tasks\<close>

definition TaskType_REBALANCE :: string where
  "TaskType_REBALANCE = ''REBALANCE''"

definition TaskType_REPLACE_BRICK :: string where
  "TaskType_REPLACE_BRICK = ''REPLACE_BRICK''"

definition TaskType_REMOVE_BRICK :: string where
  "TaskType_REMOVE_BRICK = ''REMOVE_BRICK''"

record volumeTask =
  vt_volumeName :: "string option"
  vt_taskType :: string
  vt_status :: string
  vt_bricks :: "string option list"

text \<open>
  Lines 812 and 824 to 826: \<open>s.upper().replace('-', '_').replace(' ', '_')\<close>, on the
  task type and on the task status.
\<close>

definition taskStatusStr :: "string \<Rightarrow> string" where
  "taskStatusStr s = replace1 CHR '' '' CHR ''_'' (replace1 CHR ''-'' CHR ''_'' (upper s))"

definition parseTask :: "string option \<Rightarrow> element \<Rightarrow> (string option \<times> volumeTask) option" where
  "parseTask volName c =
     do {
       ty \<leftarrow> str_at [''type''] c;
       taskId \<leftarrow> text_at [''id''] c;
       bs \<leftarrow> (if taskStatusStr ty = TaskType_REPLACE_BRICK then
                do {
                  src \<leftarrow> text_at [''params'', ''srcBrick''] c;
                  dst \<leftarrow> text_at [''params'', ''dstBrick''] c;
                  Some [src, dst]
                }
              else if taskStatusStr ty = TaskType_REMOVE_BRICK then
                Some (map el_text (findall [''params'', ''brick''] c))
              else Some []);
       st \<leftarrow> str_at [''statusStr''] c;
       Some (taskId, \<lparr>vt_volumeName = volName, vt_taskType = taskStatusStr ty,
                      vt_status = taskStatusStr st, vt_bricks = bs\<rparr>)
     }"

fun parseTaskList ::
  "string option \<Rightarrow> element list \<Rightarrow> (string option \<times> volumeTask) list
     \<Rightarrow> (string option \<times> volumeTask) list option" where
  "parseTaskList volName [] tasks = Some tasks"
| "parseTaskList volName (c # cs) tasks =
     do {
       t \<leftarrow> parseTask volName c;
       parseTaskList volName cs (dict_set tasks (fst t) (snd t))
     }"

fun parseTaskVolumes ::
  "element list \<Rightarrow> (string option \<times> volumeTask) list
     \<Rightarrow> (string option \<times> volumeTask) list option" where
  "parseTaskVolumes [] tasks = Some tasks"
| "parseTaskVolumes (el # els) tasks =
     do {
       volName \<leftarrow> text_at [''volName''] el;
       tasks' \<leftarrow> parseTaskList volName (findall [''tasks'', ''task''] el) tasks;
       parseTaskVolumes els tasks'
     }"

definition parseVolumeTasks :: "element \<Rightarrow> (string option \<times> volumeTask) list option" where
  "parseVolumeTasks tree =
     parseTaskVolumes (findall [''volStatus'', ''volumes'', ''volume''] tree) []"

definition volumeTasks :: "env \<Rightarrow> string \<Rightarrow> error + (string option \<times> volumeTask) list" where
  "volumeTasks env volName =
     (let command = getGlusterVolCmd env @ [''status'', volName, ''tasks'']
      in case execGlusterXml env command of
           Inl e \<Rightarrow> Inl e
         | Inr xmltree \<Rightarrow>
             (case parseVolumeTasks xmltree of
                None \<Rightarrow> Inl (GlusterXMLError (command @ [''--xml'']) (TreeXml xmltree))
              | Some tasks \<Rightarrow> Inr tasks))"

section \<open>Operations that only acknowledge\<close>

text \<open>
  \<open>volumeStart\<close> runs its command through \<open>_execGluster\<close> and drops what it returns;
  \<open>volumeStop\<close>, \<open>volumeDelete\<close> and \<open>peerProbe\<close> run theirs through
  \<open>_execGlusterXml\<close>. Each returns \<open>True\<close> when no exception was raised.
\<close>

definition volumeStart :: "env \<Rightarrow> string \<Rightarrow> bool \<Rightarrow> error + bool" where
  "volumeStart env volName force =
     (let command = getGlusterVolCmd env @ [''start'', volName]
                    @ (if force then [''force''] else [])
      in case execGluster env command of
           Inl e \<Rightarrow> Inl e
         | Inr _ \<Rightarrow> Inr True)"

definition volumeStop :: "env \<Rightarrow> string \<Rightarrow> bool \<Rightarrow> error + bool" where
  "volumeStop env volName force =
     (let command = getGlusterVolCmd env @ [''stop'', volName]
                    @ (if force then [''force''] else [])
      in case execGlusterXml env command of
           Inl e \<Rightarrow> Inl e
         | Inr _ \<Rightarrow> Inr True)"

definition volumeDelete :: "env \<Rightarrow> string \<Rightarrow> error + bool" where
  "volumeDelete env volName =
     (let command = getGlusterVolCmd env @ [''delete'', volName]
      in case execGlusterXml env command of
           Inl e \<Rightarrow> Inl e
         | Inr _ \<Rightarrow> Inr True)"

definition peerProbe :: "env \<Rightarrow> string \<Rightarrow> error + bool" where
  "peerProbe env hostName =
     (let command = getGlusterPeerCmd env @ [''probe'', hostName]
      in case execGlusterXml env command of
           Inl e \<Rightarrow> Inl e
         | Inr _ \<Rightarrow> Inr True)"

text \<open>
  \<open>snapshotDelete\<close>: the snapshot name wins over the volume name; the command runs
  through \<open>_execGluster\<close> (``xml output not used because of BZ:1161416 in gluster cli'')
  and \<open>rc\<close>, \<open>out\<close> and \<open>err\<close> are not looked at.
\<close>

definition snapshotDelete :: "env \<Rightarrow> string option \<Rightarrow> string option \<Rightarrow> error + bool" where
  "snapshotDelete env volName snapName =
     (let command = getGlusterSnapshotCmd env @ [''delete'']
                    @ (if truthy snapName then [the snapName]
                       else if truthy volName then [''volume'', the volName]
                       else [])
      in case execGluster env command of
           Inl e \<Rightarrow> Inl e
         | Inr _ \<Rightarrow> Inr True)"

section \<open>Volume-set help\<close>

text \<open>
  \<open>_parseVolumeSetHelpXml\<close> parses the output outside any \<open>try\<close>: a ParseError leaves the
  function as it is. Each \<open>option\<close> element becomes the dictionary of its children,
  \<open>ch.text or ''\<close> per tag.
\<close>

definition childDict :: "element \<Rightarrow> (string \<times> string) list" where
  "childDict el =
     foldl (\<lambda>d ch. dict_set d (el_tag ch) (case el_text ch of None \<Rightarrow> [] | Some t \<Rightarrow> t))
       [] (el_children el)"

definition parseVolumeSetHelpXml :: "env \<Rightarrow> pyval \<Rightarrow> error + (string \<times> string) list list" where
  "parseVolumeSetHelpXml env out =
     (case out of
        PyList _ \<Rightarrow> Inl TypeError
      | PyStr s \<Rightarrow>
          (case fromstring env s of
             None \<Rightarrow> Inl ParseError
           | Some tree \<Rightarrow> Inr (map childDict (findall [''option''] tree))))"

definition volumeSetHelpXml :: "env \<Rightarrow> error + (string \<times> string) list list" where
  "volumeSetHelpXml env =
     (case execGluster env (getGlusterVolCmd env @ [''set'', ''help-xml'']) of
        Inl e \<Rightarrow> Inl e
      | Inr (rc, out, err) \<Rightarrow> parseVolumeSetHelpXml env out)"

section \<open>Replace-brick status\<close>

datatype BrickStatus = PAUSED | COMPLETED | RUNNING | UNKNOWN | NA

text \<open>
  \<open>BrickStatus.PAUSED\<close> is the string \<open>'PAUSED'\<close>, which line 641 looks for in the
  status line.
\<close>

definition BrickStatus_PAUSED :: string where
  "BrickStatus_PAUSED = ''PAUSED''"

text \<open>Lines 641 to 650: the chain of tests on \<open>statLine\<close>.\<close>

definition brickStatusOf :: "string \<Rightarrow> BrickStatus" where
  "brickStatusOf statLine =
     (if sublist BrickStatus_PAUSED statLine then PAUSED
      else if suffix ''MIGRATION COMPLETE'' statLine then COMPLETED
      else if prefix ''NUMBER OF FILES MIGRATED'' statLine then RUNNING
      else if suffix ''UNKNOWN'' statLine then UNKNOWN
      else NA)"

text \<open>
  \<open>"\\n".join(out)\<close> iterates over \<open>out\<close>: over the characters of a string, over the
  items of a list. \<open>out[0]\<close> is the first character of a string (a string of length
  one), the first item of a list, and raises IndexError when there is none.
\<close>

fun py_items :: "pyval \<Rightarrow> string list" where
  "py_items (PyStr s) = map (\<lambda>c. [c]) s"
| "py_items (PyList ls) = ls"

definition py_first :: "pyval \<Rightarrow> error + string" where
  "py_first out = (case py_items out of [] \<Rightarrow> Inl IndexError | x # _ \<Rightarrow> Inr x)"

definition volumeReplaceBrickStatus ::
  "env \<Rightarrow> string \<Rightarrow> string \<Rightarrow> string \<Rightarrow> error + (BrickStatus \<times> string)" where
  "volumeReplaceBrickStatus env volName existingBrick newBrick =
     (case execGluster env (getGlusterVolCmd env
             @ [''replace-brick'', volName, existingBrick, newBrick, ''status'']) of
        Inl e \<Rightarrow> Inl e
      | Inr (rc, out, err) \<Rightarrow>
          (let message = join [CHR 0x0A] (py_items out)
           in case py_first out of
                Inl e \<Rightarrow> Inl e
              | Inr line \<Rightarrow> Inr (brickStatusOf (upper (strip line)), message)))"

section \<open>Peer detach\<close>

text \<open>
  The handler of \<open>peerDetach\<close> catches GlusterCmdFailed only. For \<open>e.rc == 2\<close> it
  evaluates \<open>GlusterPeerNotFound(hostName)\<close>; the module neither defines nor imports
  that name, so the evaluation raises NameError. Every other GlusterCmdFailed is
  raised again as it is.
\<close>

definition peerDetach :: "env \<Rightarrow> string \<Rightarrow> bool \<Rightarrow> error + bool" where
  "peerDetach env hostName force =
     (let command = getGlusterPeerCmd env @ [''detach'', hostName]
                    @ (if force then [''force''] else [])
      in case execGlusterXml env command of
           Inr _ \<Rightarrow> Inr True
         | Inl (GlusterCmdFailed c rc msg) \<Rightarrow>
             if rc = 2 then Inl (NameError ''GlusterPeerNotFound'')
             else Inl (GlusterCmdFailed c rc msg)
         | Inl e \<Rightarrow> Inl e)"

section \<open>Example responses\<close>

text \<open>
  An executor that answers every command with the same exit code and streams, and a
  parser that knows the tree of that one output.
\<close>

definition canned :: "int \<Rightarrow> pyval \<Rightarrow> pyval \<Rightarrow> element option \<Rightarrow> env" where
  "canned rc out err tree =
     \<lparr>execCmd = (\<lambda>cmd. (rc, out, err)),
      fromstring = (\<lambda>s. if PyStr s = out then tree else None),
      glusterCmd = ''/usr/sbin/gluster''\<rparr>"

text \<open>The envelope \<open>cliOutput\<close> with its three fields, followed by a body.\<close>

definition envelope :: "string \<Rightarrow> string \<Rightarrow> string option \<Rightarrow> element list \<Rightarrow> element" where
  "envelope opRet opErrno opErrstr body =
     Element ''cliOutput'' None
       ([Element ''opRet'' (Some opRet) [],
         Element ''opErrno'' (Some opErrno) [],
         Element ''opErrstr'' opErrstr []] @ body)"

text \<open>A response that reports success (exit code 0, \<open>opRet\<close> 0) and holds the marker.\<close>

definition busy_xml :: string where
  "busy_xml = ''<cliOutput><opRet>0</opRet><opErrno>0</opErrno><opErrstr>Another Transaction is in progress for vol1</opErrstr></cliOutput>''"

definition busy_tree :: element where
  "busy_tree = envelope ''0'' ''0'' (Some ''Another Transaction is in progress for vol1'') []"

definition busy_env :: env where
  "busy_env = canned 0 (PyStr busy_xml) (PyStr []) (Some busy_tree)"

text \<open>Outcome code 2, detailed code 0, message ``volume does not exist''.\<close>

definition noent_xml :: string where
  "noent_xml = ''<cliOutput><opRet>2</opRet><opErrno>0</opErrno><opErrstr>volume does not exist</opErrstr></cliOutput>''"

definition noent_tree :: element where
  "noent_tree = envelope ''2'' ''0'' (Some ''volume does not exist'') []"

definition noent_env :: env where
  "noent_env = canned 2 (PyStr noent_xml) (PyStr []) (Some noent_tree)"

text \<open>
  The tool refuses a command while another one holds the cluster lock: nothing on
  standard output, the message on standard error, exit code 1.
\<close>

definition locked_msg :: string where
  "locked_msg = ''Another transaction is in progress. Please try again after sometime.''"

definition locked_env :: env where
  "locked_env = canned 1 (PyStr []) (PyStr locked_msg) None"

text \<open>A failed start of a volume as the tool reports it without \<open>--xml\<close>.\<close>

definition start_failed_msg :: string where
  "start_failed_msg = ''volume start: vol1: failed: Volume vol1 does not exist''"

definition start_failed_env :: env where
  "start_failed_env = canned 1 (PyStr []) (PyStr start_failed_msg) None"

text \<open>The same failure of a stop, in the envelope that \<open>--xml\<close> asks for.\<close>

definition stop_failed_xml :: string where
  "stop_failed_xml = ''<cliOutput><opRet>-1</opRet><opErrno>30800</opErrno><opErrstr>Volume vol1 does not exist</opErrstr></cliOutput>''"

definition stop_failed_tree :: element where
  "stop_failed_tree = envelope ''-1'' ''30800'' (Some ''Volume vol1 does not exist'') []"

definition stop_failed_env :: env where
  "stop_failed_env = canned 1 (PyStr stop_failed_xml) (PyStr []) (Some stop_failed_tree)"

text \<open>Detaching a host that is no peer: outcome code -1, detailed code 2.\<close>

definition detach_xml :: string where
  "detach_xml = ''<cliOutput><opRet>-1</opRet><opErrno>2</opErrno><opErrstr>host9 is not part of cluster</opErrstr></cliOutput>''"

definition detach_tree :: element where
  "detach_tree = envelope ''-1'' ''2'' (Some ''host9 is not part of cluster'') []"

definition detach_env :: env where
  "detach_env = canned 1 (PyStr detach_xml) (PyStr []) (Some detach_tree)"

text \<open>
  A replace-brick status whose first line contains PAUSED and ends in ``Migration
  complete'': as the string the executor captures, and as a list of lines.
\<close>

definition paused_line :: string where
  "paused_line = ''replace-brick PAUSED, last pass: Migration complete''"

definition paused_env :: env where
  "paused_env = canned 0 (PyStr paused_line) (PyStr []) None"

definition paused_lines_env :: env where
  "paused_lines_env = canned 0 (PyList [paused_line]) (PyList []) None"

text \<open>No output at all, and a message without the marker on standard error.\<close>

definition down_msg :: string where
  "down_msg = ''Connection failed. Please check if gluster daemon is operational.''"

definition down_env :: env where
  "down_env = canned 1 (PyStr []) (PyStr down_msg) None"

text \<open>
  A volume-info response: the \<open>volume\<close> element of a volume with the given name, brick
  count, transport code and \<open>brick\<close> elements, and the tree around such elements.
\<close>

definition brick_el :: "string \<Rightarrow> string \<Rightarrow> element" where
  "brick_el brick hostUuid =
     Element ''brick'' (Some brick)
       [Element ''name'' (Some brick) [], Element ''hostUuid'' (Some hostUuid) []]"

definition volume_el :: "string \<Rightarrow> string \<Rightarrow> string \<Rightarrow> element list \<Rightarrow> element" where
  "volume_el name nbricks transport brs =
     Element ''volume'' None
       [Element ''name'' (Some name) [],
        Element ''id'' (Some ''c4f3a1d2'') [],
        Element ''status'' (Some ''1'') [],
        Element ''statusStr'' (Some ''Started'') [],
        Element ''brickCount'' (Some nbricks) [],
        Element ''distCount'' (Some ''1'') [],
        Element ''stripeCount'' (Some ''1'') [],
        Element ''replicaCount'' (Some ''1'') [],
        Element ''type'' (Some ''0'') [],
        Element ''typeStr'' (Some ''Distributed-Replicate'') [],
        Element ''transport'' (Some transport) [],
        Element ''bricks'' None brs,
        Element ''optCount'' (Some ''1'') [],
        Element ''options'' None
          [Element ''option'' None
             [Element ''name'' (Some ''auth.allow'') [], Element ''value'' (Some ''*'') []]]]"

definition volinfo_tree :: "element list \<Rightarrow> element" where
  "volinfo_tree vols =
     envelope ''0'' ''0'' None [Element ''volInfo'' None [Element ''volumes'' None vols]]"

text \<open>A response that announces three bricks and lists one, and what it decodes to.\<close>

definition short_tree :: element where
  "short_tree = volinfo_tree [volume_el ''vol1'' ''3'' ''2'' [brick_el ''h1:/b1'' ''9a0b'']]"

definition short_volume :: volume where
  "short_volume =
     \<lparr>volumeName = Some ''vol1'',
      uuid = Some ''c4f3a1d2'',
      volumeType = ''DISTRIBUTED_REPLICATE'',
      volumeStatus = ONLINE,
      brickCount = Some ''3'',
      distCount = Some ''1'',
      stripeCount = Some ''1'',
      replicaCount = Some ''1'',
      transportType = [TCP, RDMA],
      bricks = [Some ''h1:/b1''],
      options = [(Some ''auth.allow'', Some ''*'')],
      bricksInfo = [\<lparr>bd_name = Some ''h1:/b1'', bd_hostUuid = Some ''9a0b''\<rparr>]\<rparr>"

section \<open>Normalized status tokens\<close>

text \<open>
  The form the specification calls normalized: no space, no hyphen and no lower-case
  letter.
\<close>

definition is_normalized_token :: "string \<Rightarrow> bool" where
  "is_normalized_token t =
     list_all (\<lambda>c. c \<noteq> CHR '' '' \<and> c \<noteq> CHR ''-'' \<and> upper_char c = c) t"

section \<open>The busy check\<close>

lemma throwIfBusy_busy:
  assumes "sublist TRANS_IN_PROGRESS (lower (out @ err))"
  shows "throwIfBusy cmd rc (PyStr out) (PyStr err)
           = Inl (GlusterBusy cmd rc (PyStr out) (PyStr err))"
  using assms by (simp add: throwIfBusy_def)

lemma throwIfBusy_quiet:
  assumes "\<not> sublist TRANS_IN_PROGRESS (lower (out @ err))"
  shows "throwIfBusy cmd rc (PyStr out) (PyStr err) = Inr ()"
  using assms by (simp add: throwIfBusy_def)

text \<open>The check passes only on two strings without the marker.\<close>

lemma throwIfBusy_Inr:
  "throwIfBusy cmd rc out err = Inr u \<longleftrightarrow>
     (\<exists>a b. out = PyStr a \<and> err = PyStr b \<and> \<not> sublist TRANS_IN_PROGRESS (lower (a @ b)))"
  by (cases out; cases err) (auto simp: throwIfBusy_def)

lemma busy_env_marker: "sublist TRANS_IN_PROGRESS (lower (busy_xml @ []))"
  by code_simp

lemma busy_env_exec: "execCmd busy_env cmd = (0, PyStr busy_xml, PyStr [])"
  by (simp add: busy_env_def canned_def)

lemma busy_env_decode: "decodeEnvelope busy_env c (PyStr busy_xml) = Inr busy_tree"
  by code_simp

text \<open>
  C1. Whenever the lower-cased concatenation of standard output and standard error
  contains ``another transaction is in progress'', both executors fail with GlusterBusy,
  which carries the command, the exit code and the two streams. The exit code and the
  parser play no part: the result is the same for every \<open>rc\<close> and every \<open>fromstring\<close>,
  so no decoding precedes it.
\<close>

theorem busy_short_circuits:
  assumes "sublist TRANS_IN_PROGRESS (lower (out @ err))"
  shows "(execCmd env cmd = (rc, PyStr out, PyStr err) \<longrightarrow>
            execGluster env cmd = Inl (GlusterBusy cmd rc (PyStr out) (PyStr err)))
       \<and> (execCmd env (cmd @ [''--xml'']) = (rc, PyStr out, PyStr err) \<longrightarrow>
            execGlusterXml env cmd
              = Inl (GlusterBusy (cmd @ [''--xml'']) rc (PyStr out) (PyStr err)))"
  using assms by (simp add: execGluster_def execGlusterXml_def throwIfBusy_busy)

text \<open>
  At exit code 0, on an output whose envelope reports success (\<open>opRet\<close> 0) and whose
  decoding alone would return the tree.
\<close>

theorem busy_short_circuits_witness:
  "sublist TRANS_IN_PROGRESS (lower (busy_xml @ []))
   \<and> decodeEnvelope busy_env
         [''/usr/sbin/gluster'', ''--mode=script'', ''volume'', ''stop'', ''vol1'', ''--xml'']
         (PyStr busy_xml) = Inr busy_tree
   \<and> execGluster busy_env [''/usr/sbin/gluster'', ''--mode=script'', ''volume'', ''start'', ''vol1'']
       = Inl (GlusterBusy [''/usr/sbin/gluster'', ''--mode=script'', ''volume'', ''start'', ''vol1'']
                0 (PyStr busy_xml) (PyStr []))
   \<and> execGlusterXml busy_env [''/usr/sbin/gluster'', ''--mode=script'', ''volume'', ''stop'', ''vol1'']
       = Inl (GlusterBusy
                [''/usr/sbin/gluster'', ''--mode=script'', ''volume'', ''stop'', ''vol1'', ''--xml'']
                0 (PyStr busy_xml) (PyStr []))"
proof -
  have a: "execGluster busy_env c = Inl (GlusterBusy c 0 (PyStr busy_xml) (PyStr []))" for c
    using busy_short_circuits [OF busy_env_marker, where env = busy_env and cmd = c and rc = 0]
      busy_env_exec by simp
  have b: "execGlusterXml busy_env c
             = Inl (GlusterBusy (c @ [''--xml'']) 0 (PyStr busy_xml) (PyStr []))" for c
    using busy_short_circuits [OF busy_env_marker, where env = busy_env and cmd = c and rc = 0]
      busy_env_exec by simp
  show ?thesis
    using busy_env_marker busy_env_decode a b by simp
qed

section \<open>The envelope\<close>

text \<open>What it takes for the \<open>try\<close> block to succeed.\<close>

lemma parseEnvelope_Inr:
  "parseEnvelope env out = Inr (tree, rv, msg, errNo) \<longleftrightarrow>
     (\<exists>s r m n rt nt. out = PyStr s \<and> fromstring env s = Some tree
        \<and> find_path [''opRet''] tree = Some r \<and> el_text r = Some rt \<and> py_int rt = Some rv
        \<and> find_path [''opErrstr''] tree = Some m \<and> msg = el_text m
        \<and> find_path [''opErrno''] tree = Some n \<and> el_text n = Some nt
        \<and> py_int nt = Some errNo)"
  by (auto simp: parseEnvelope_def int_of_text_def split: pyval.splits option.splits sum.splits)

lemma decodeEnvelope_ok:
  assumes "parseEnvelope env out = Inr (tree, 0, msg, errNo)"
  shows "decodeEnvelope env c out = Inr tree"
  using assms by (simp add: decodeEnvelope_def)

lemma noent_parse:
  "parseEnvelope noent_env (PyStr noent_xml)
     = Inr (noent_tree, 2, Some ''volume does not exist'', 0)"
  by code_simp

lemma noent_quiet: "throwIfBusy c 2 (PyStr noent_xml) (PyStr []) = Inr ()"
  by code_simp

lemma noent_exec: "execCmd noent_env cmd = (2, PyStr noent_xml, PyStr [])"
  by (simp add: noent_env_def canned_def)

lemma stop_failed_quiet: "throwIfBusy c 1 (PyStr stop_failed_xml) (PyStr []) = Inr ()"
  by code_simp

lemma stop_failed_exec: "execCmd stop_failed_env cmd = (1, PyStr stop_failed_xml, PyStr [])"
  by (simp add: stop_failed_env_def canned_def)

text \<open>
  C2. Let the output parse to a tree whose \<open>opRet\<close> holds the number \<open>rv\<close>, not zero,
  whose \<open>opErrno\<close> holds the number \<open>errNo\<close>, and which has an \<open>opErrstr\<close> element.
  Then decoding fails with GlusterCmdFailed; its code is \<open>errNo\<close> when that is not zero
  and \<open>rv\<close> otherwise, and it carries the text of \<open>opErrstr\<close>. So does
  \<open>_execGlusterXml\<close>, which reaches the decoding once the busy check has passed.
\<close>

theorem command_failed_code:
  assumes "fromstring env s = Some tree"
      and "find_path [''opRet''] tree = Some r"
      and "el_text r = Some rt"
      and "py_int rt = Some rv"
      and "find_path [''opErrstr''] tree = Some m"
      and "find_path [''opErrno''] tree = Some n"
      and "el_text n = Some nt"
      and "py_int nt = Some errNo"
      and "rv \<noteq> 0"
  shows "decodeEnvelope env c (PyStr s)
           = Inl (GlusterCmdFailed c (if errNo \<noteq> 0 then errNo else rv) (el_text m))
       \<and> (execCmd env (cmd @ [''--xml'']) = (rc, PyStr s, err)
            \<and> throwIfBusy (cmd @ [''--xml'']) rc (PyStr s) err = Inr ()
          \<longrightarrow> execGlusterXml env cmd
                = Inl (GlusterCmdFailed (cmd @ [''--xml''])
                         (if errNo \<noteq> 0 then errNo else rv) (el_text m)))"
proof -
  have "parseEnvelope env (PyStr s) = Inr (tree, rv, el_text m, errNo)"
    using assms(1-8) by (simp add: parseEnvelope_def int_of_text_def)
  with \<open>rv \<noteq> 0\<close> show ?thesis
    by (simp add: decodeEnvelope_def execGlusterXml_def)
qed

text \<open>
  Outcome code 2 with detailed code 0 and the message ``volume does not exist'' gives
  code 2; outcome code -1 with detailed code 30800 gives code 30800.
\<close>

theorem command_failed_code_witness:
  "fromstring noent_env noent_xml = Some noent_tree
   \<and> find_path [''opRet''] noent_tree = Some (Element ''opRet'' (Some ''2'') [])
   \<and> py_int ''2'' = Some 2
   \<and> find_path [''opErrstr''] noent_tree
       = Some (Element ''opErrstr'' (Some ''volume does not exist'') [])
   \<and> find_path [''opErrno''] noent_tree = Some (Element ''opErrno'' (Some ''0'') [])
   \<and> py_int ''0'' = Some 0
   \<and> execGlusterXml noent_env [''/usr/sbin/gluster'', ''--mode=script'', ''volume'', ''stop'', ''vol1'']
       = Inl (GlusterCmdFailed
                [''/usr/sbin/gluster'', ''--mode=script'', ''volume'', ''stop'', ''vol1'', ''--xml'']
                2 (Some ''volume does not exist''))
   \<and> fromstring stop_failed_env stop_failed_xml = Some stop_failed_tree
   \<and> find_path [''opRet''] stop_failed_tree = Some (Element ''opRet'' (Some ''-1'') [])
   \<and> py_int ''-1'' = Some (- 1)
   \<and> find_path [''opErrno''] stop_failed_tree = Some (Element ''opErrno'' (Some ''30800'') [])
   \<and> py_int ''30800'' = Some 30800
   \<and> execGlusterXml stop_failed_env
         [''/usr/sbin/gluster'', ''--mode=script'', ''volume'', ''stop'', ''vol1'']
       = Inl (GlusterCmdFailed
                [''/usr/sbin/gluster'', ''--mode=script'', ''volume'', ''stop'', ''vol1'', ''--xml'']
                30800 (Some ''Volume vol1 does not exist''))"
proof -
  let ?cmd = "[''/usr/sbin/gluster'', ''--mode=script'', ''volume'', ''stop'', ''vol1'']"
  have a1: "fromstring noent_env noent_xml = Some noent_tree" by code_simp
  have a2: "find_path [''opRet''] noent_tree = Some (Element ''opRet'' (Some ''2'') [])"
    by code_simp
  have a3: "el_text (Element ''opRet'' (Some ''2'') []) = Some ''2''" by simp
  have a4: "py_int ''2'' = Some 2" by code_simp
  have a5: "find_path [''opErrstr''] noent_tree
              = Some (Element ''opErrstr'' (Some ''volume does not exist'') [])"
    by code_simp
  have a6: "find_path [''opErrno''] noent_tree = Some (Element ''opErrno'' (Some ''0'') [])"
    by code_simp
  have a7: "el_text (Element ''opErrno'' (Some ''0'') []) = Some ''0''" by simp
  have a8: "py_int ''0'' = Some 0" by code_simp
  have a9: "(2::int) \<noteq> 0" by simp
  have b1: "fromstring stop_failed_env stop_failed_xml = Some stop_failed_tree" by code_simp
  have b2: "find_path [''opRet''] stop_failed_tree = Some (Element ''opRet'' (Some ''-1'') [])"
    by code_simp
  have b3: "el_text (Element ''opRet'' (Some ''-1'') []) = Some ''-1''" by simp
  have b4: "py_int ''-1'' = Some (- 1)" by code_simp
  have b5: "find_path [''opErrstr''] stop_failed_tree
              = Some (Element ''opErrstr'' (Some ''Volume vol1 does not exist'') [])"
    by code_simp
  have b6: "find_path [''opErrno''] stop_failed_tree
              = Some (Element ''opErrno'' (Some ''30800'') [])"
    by code_simp
  have b7: "el_text (Element ''opErrno'' (Some ''30800'') []) = Some ''30800''" by simp
  have b8: "py_int ''30800'' = Some 30800" by code_simp
  have b9: "(- 1::int) \<noteq> 0" by simp
  have A: "execGlusterXml noent_env ?cmd
             = Inl (GlusterCmdFailed (?cmd @ [''--xml'']) 2 (Some ''volume does not exist''))"
    using command_failed_code [OF a1 a2 a3 a4 a5 a6 a7 a8 a9,
        where cmd = ?cmd and rc = 2 and err = "PyStr []"]
      noent_exec noent_quiet by simp
  have B: "execGlusterXml stop_failed_env ?cmd
             = Inl (GlusterCmdFailed (?cmd @ [''--xml'']) 30800
                      (Some ''Volume vol1 does not exist''))"
    using command_failed_code [OF b1 b2 b3 b4 b5 b6 b7 b8 b9,
        where cmd = ?cmd and rc = 1 and err = "PyStr []"]
      stop_failed_exec stop_failed_quiet by simp
  show ?thesis
    using a1 a2 a4 a5 a6 a8 b1 b2 b4 b6 b8 A B by simp
qed

section \<open>Which executor an operation uses\<close>

text \<open>
  \<open>volumeStart\<close> succeeds whatever exit code the tool reports, as long as the busy
  check passes; \<open>volumeStop\<close> hands on every failure of \<open>_execGlusterXml\<close>.
\<close>

lemma volumeStart_ignores_rc:
  assumes "execCmd env (getGlusterVolCmd env @ [''start'', volName]
             @ (if force then [''force''] else [])) = (rc, PyStr out, PyStr err)"
      and "\<not> sublist TRANS_IN_PROGRESS (lower (out @ err))"
  shows "volumeStart env volName force = Inr True"
  using assms by (simp add: volumeStart_def execGluster_def throwIfBusy_def)

lemma volumeStop_propagates:
  assumes "execGlusterXml env (getGlusterVolCmd env @ [''stop'', volName]
             @ (if force then [''force''] else [])) = Inl e"
  shows "volumeStop env volName force = Inl e"
  using assms by (simp add: volumeStop_def)

lemma snapshotDelete_swallows_failure:
  "snapshotDelete start_failed_env None (Some ''snap1'') = Inr True"
  by code_simp

text \<open>
  C3. The specification lists three operations that run without \<open>--xml\<close>. \<open>volumeStart\<close>
  is a fourth: against a locked cluster the command that GlusterBusy carries is the
  one that ran, and it ends in the volume name, where the command of \<open>volumeStop\<close>
  ends in \<open>--xml\<close>.
\<close>

theorem volumeStart_runs_without_xml:
  "volumeStart locked_env ''vol1'' False
     = Inl (GlusterBusy [''/usr/sbin/gluster'', ''--mode=script'', ''volume'', ''start'', ''vol1'']
              1 (PyStr []) (PyStr locked_msg))
   \<and> volumeStop locked_env ''vol1'' False
     = Inl (GlusterBusy
              [''/usr/sbin/gluster'', ''--mode=script'', ''volume'', ''stop'', ''vol1'', ''--xml'']
              1 (PyStr []) (PyStr locked_msg))"
  by code_simp

text \<open>
  C4. The specification promises a typed failure whenever the external command reports
  one. \<open>volumeStart\<close> returns \<open>True\<close> for a command that exits with 1 and a failure
  message; \<open>volumeStop\<close>, on the same failure in its envelope, raises GlusterCmdFailed.
\<close>

theorem volumeStart_swallows_failure:
  "volumeStart start_failed_env ''vol1'' False = Inr True
   \<and> volumeStop stop_failed_env ''vol1'' False
       = Inl (GlusterCmdFailed
                [''/usr/sbin/gluster'', ''--mode=script'', ''volume'', ''stop'', ''vol1'', ''--xml'']
                30800 (Some ''Volume vol1 does not exist''))"
  by code_simp

section \<open>Peer detach\<close>

text \<open>
  What \<open>peerDetach\<close> does with a GlusterCmdFailed: every code but 2 is handed on
  unchanged.
\<close>

lemma peerDetach_on_failure:
  assumes "execGlusterXml env (getGlusterPeerCmd env @ [''detach'', hostName]
             @ (if force then [''force''] else [])) = Inl (GlusterCmdFailed c rc msg)"
  shows "peerDetach env hostName force
           = (if rc = 2 then Inl (NameError ''GlusterPeerNotFound'')
              else Inl (GlusterCmdFailed c rc msg))"
  using assms by (simp add: peerDetach_def)

text \<open>
  C5. The specification has failure code 2 of a peer detach reclassified into
  PeerNotFound, carrying the host name. The handler does evaluate
  \<open>GlusterPeerNotFound(hostName)\<close>, but the name is bound nowhere in the module: the
  call ends in NameError and the host name is lost.
\<close>

theorem peerDetach_code_2:
  "peerDetach detach_env ''host9'' False = Inl (NameError ''GlusterPeerNotFound'')"
  by code_simp

section \<open>Replace-brick status\<close>

lemma execGluster_Inr:
  "execGluster env cmd = Inr (rc, out, err) \<Longrightarrow> \<exists>a b. out = PyStr a \<and> err = PyStr b"
  by (auto simp: execGluster_def throwIfBusy_Inr split: prod.splits sum.splits)

text \<open>The chain of tests does put PAUSED first.\<close>

lemma brickStatusOf_paused_first:
  "sublist ''PAUSED'' statLine \<Longrightarrow> brickStatusOf statLine = PAUSED"
  by (simp add: brickStatusOf_def BrickStatus_PAUSED_def)

lemma length_strip_le: "length (strip s) \<le> length s"
proof -
  have "length (dropWhile P xs) \<le> length xs" for P and xs :: string
    by (induction xs) auto
  from this [of is_space "rev (dropWhile is_space s)"] this [of is_space s]
  show ?thesis by (simp add: strip_def)
qed

lemma brickStatusOf_short:
  assumes "length statLine < 6"
  shows "brickStatusOf statLine = NA"
proof -
  have "\<not> sublist ''PAUSED'' statLine"
    using assms sublist_length_le [of "''PAUSED''" statLine] by auto
  moreover have "\<not> suffix ''MIGRATION COMPLETE'' statLine"
    using assms suffix_length_le [of "''MIGRATION COMPLETE''" statLine] by auto
  moreover have "\<not> prefix ''NUMBER OF FILES MIGRATED'' statLine"
    using assms prefix_length_le [of "''NUMBER OF FILES MIGRATED''" statLine] by auto
  moreover have "\<not> suffix ''UNKNOWN'' statLine"
    using assms suffix_length_le [of "''UNKNOWN''" statLine] by auto
  ultimately show ?thesis
    by (simp add: brickStatusOf_def BrickStatus_PAUSED_def)
qed

lemma py_first_PyStr: "py_first (PyStr s) = Inr line \<Longrightarrow> length line = 1"
  by (cases s) (auto simp: py_first_def)

text \<open>
  Whatever the executor returns, the status that \<open>volumeReplaceBrickStatus\<close> returns is
  NA: the busy check lets only strings through, and \<open>out[0]\<close> of a string is one
  character.
\<close>

lemma volumeReplaceBrickStatus_only_NA:
  assumes "volumeReplaceBrickStatus env volName existingBrick newBrick = Inr (st, message)"
  shows "st = NA"
proof -
  let ?cmd = "getGlusterVolCmd env
                @ [''replace-brick'', volName, existingBrick, newBrick, ''status'']"
  from assms obtain rc out err line where
    ex: "execGluster env ?cmd = Inr (rc, out, err)" and
    first: "py_first out = Inr line" and
    st: "st = brickStatusOf (upper (strip line))"
    by (auto simp: volumeReplaceBrickStatus_def Let_def split: sum.splits prod.splits)
  from execGluster_Inr [OF ex] obtain a where "out = PyStr a" by blast
  with first have "length line = 1" by (simp add: py_first_PyStr)
  with length_strip_le [of line] have "length (upper (strip line)) < 6"
    by (simp add: upper_def)
  with st show ?thesis by (simp add: brickStatusOf_short)
qed

text \<open>
  C7. The specification has a first line that contains PAUSED and ends in MIGRATION
  COMPLETE resolve to PAUSED. On such a line, captured as a string, the function
  returns NA with the characters of the output joined by newlines; captured as a list
  of lines, the busy check before it raises AttributeError.
\<close>

theorem replace_brick_status_first_character:
  "sublist ''PAUSED'' (upper (strip paused_line))
   \<and> suffix ''MIGRATION COMPLETE'' (upper (strip paused_line))
   \<and> volumeReplaceBrickStatus paused_env ''vol1'' ''h1:/b1'' ''h2:/b2''
       = Inr (NA, join [CHR 0x0A] (py_items (PyStr paused_line)))
   \<and> volumeReplaceBrickStatus paused_lines_env ''vol1'' ''h1:/b1'' ''h2:/b2''
       = Inl AttributeError"
  by code_simp

lemma down_quiet: "\<not> sublist TRANS_IN_PROGRESS (lower down_msg)"
  by code_simp

text \<open>
  C10, as stated, fails where standard error holds the marker: with no output at all
  the call ends in GlusterBusy, not in IndexError.
\<close>

theorem replace_brick_status_busy_counterexample:
  "volumeReplaceBrickStatus locked_env ''vol1'' ''h1:/b1'' ''h2:/b2''
     = Inl (GlusterBusy
              [''/usr/sbin/gluster'', ''--mode=script'', ''volume'', ''replace-brick'', ''vol1'',
               ''h1:/b1'', ''h2:/b2'', ''status'']
              1 (PyStr []) (PyStr locked_msg))"
  by code_simp

text \<open>
  C10, amended. When the captured standard output is empty and standard error does not
  hold the marker, \<open>volumeReplaceBrickStatus\<close> raises IndexError, which is none of the
  module's own exceptions, and returns no status.
\<close>

theorem replace_brick_status_empty_output:
  assumes "execCmd env (getGlusterVolCmd env
             @ [''replace-brick'', volName, existingBrick, newBrick, ''status''])
           = (rc, PyStr [], PyStr err)"
      and "\<not> sublist TRANS_IN_PROGRESS (lower err)"
  shows "volumeReplaceBrickStatus env volName existingBrick newBrick = Inl IndexError"
  using assms
  by (simp add: volumeReplaceBrickStatus_def execGluster_def throwIfBusy_def py_first_def)

theorem replace_brick_status_empty_output_witness:
  "\<not> sublist TRANS_IN_PROGRESS (lower down_msg)
   \<and> volumeReplaceBrickStatus down_env ''vol1'' ''h1:/b1'' ''h2:/b2'' = Inl IndexError"
proof -
  have e: "execCmd down_env c = (1, PyStr [], PyStr down_msg)" for c
    by (simp add: down_env_def canned_def)
  from replace_brick_status_empty_output [OF e down_quiet]
  show ?thesis using down_quiet by simp
qed

section \<open>Volume info\<close>

lemma parseVolume_Some:
  assumes "parseVolume el = Some v"
  shows "text_at [''name''] el = Some (volumeName v)"
    and "text_at [''brickCount''] el = Some (brickCount v)"
    and "bricks v = map el_text (findall [''bricks'', ''brick''] el)"
    and "\<exists>t. text_at [''transport''] el = Some t \<and> transportType v = transportTypeOf t"
  using assms by (auto simp: parseVolume_def split: bind_splits)

lemma set_dict_set: "set (dict_set d k v) \<subseteq> insert (k, v) (set d)"
  by (induction d) (auto split: if_splits)

text \<open>Every item of the result was there before or comes from a \<open>volume\<close> element.\<close>

lemma parseVolumes_entries:
  assumes "parseVolumes els acc = Some volumes" and "(k, v) \<in> set volumes"
  shows "(k, v) \<in> set acc \<or> (\<exists>el \<in> set els. parseVolume el = Some v \<and> k = volumeName v)"
  using assms
proof (induction els arbitrary: acc)
  case Nil
  then show ?case by simp
next
  case (Cons el els)
  from Cons.prems(1) obtain w where
    w: "parseVolume el = Some w" and
    rest: "parseVolumes els (dict_set acc (volumeName w) w) = Some volumes"
    by (auto split: bind_splits)
  from Cons.IH [OF rest Cons.prems(2)] set_dict_set [of acc "volumeName w" w] w
  show ?case by auto
qed

lemma short_parse: "parseVolumeInfo short_tree = Some [(Some ''vol1'', short_volume)]"
  by code_simp

lemma short_el_parse:
  "parseVolume (volume_el ''vol1'' ''3'' ''2'' [brick_el ''h1:/b1'' ''9a0b'']) = Some short_volume"
  by code_simp

text \<open>
  C6, as stated, fails on a response whose \<open>brickCount\<close> is not the number of its
  \<open>brick\<close> elements: the decoded volume keeps the count ``3'' beside a list of one
  brick.
\<close>

theorem brick_count_counterexample:
  "parseVolumeInfo short_tree = Some [(Some ''vol1'', short_volume)]
   \<and> brickCount short_volume = Some ''3''
   \<and> py_int ''3'' = Some 3
   \<and> length (bricks short_volume) = 1"
  by code_simp

text \<open>
  C6, amended. Every volume of a decoded volume-info response comes from one \<open>volume\<close>
  element of the response: its \<open>bricks\<close> list holds the text of each \<open>bricks/brick\<close>
  element of that element, in document order and so one entry per element, and its
  \<open>brickCount\<close> is the text of the element's \<open>brickCount\<close>, copied as a string. The two
  agree when the response is consistent; the decoder does not compare them.
\<close>

theorem bricks_follow_response:
  assumes "parseVolumeInfo tree = Some volumes" and "(k, v) \<in> set volumes"
  shows "\<exists>el \<in> set (findall [''volInfo'', ''volumes'', ''volume''] tree).
           parseVolume el = Some v
         \<and> k = volumeName v
         \<and> bricks v = map el_text (findall [''bricks'', ''brick''] el)
         \<and> length (bricks v) = length (findall [''bricks'', ''brick''] el)
         \<and> text_at [''brickCount''] el = Some (brickCount v)"
proof -
  from parseVolumes_entries [OF assms [unfolded parseVolumeInfo_def]]
  obtain el where "el \<in> set (findall [''volInfo'', ''volumes'', ''volume''] tree)"
    and "parseVolume el = Some v" and "k = volumeName v"
    by auto
  with parseVolume_Some [of el v] show ?thesis by auto
qed

theorem bricks_follow_response_witness:
  "parseVolumeInfo short_tree = Some [(Some ''vol1'', short_volume)]
   \<and> (Some ''vol1'', short_volume) \<in> set [(Some ''vol1'', short_volume)]
   \<and> bricks short_volume
       = map el_text (findall [''bricks'', ''brick'']
           (volume_el ''vol1'' ''3'' ''2'' [brick_el ''h1:/b1'' ''9a0b'']))
   \<and> text_at [''brickCount''] (volume_el ''vol1'' ''3'' ''2'' [brick_el ''h1:/b1'' ''9a0b''])
       = Some (brickCount short_volume)"
proof -
  have m: "(Some ''vol1'', short_volume) \<in> set [(Some ''vol1'', short_volume)]" by simp
  have f: "findall [''volInfo'', ''volumes'', ''volume''] short_tree
             = [volume_el ''vol1'' ''3'' ''2'' [brick_el ''h1:/b1'' ''9a0b'']]"
    by code_simp
  from bricks_follow_response [OF short_parse m]
  show ?thesis using short_parse by (simp only: f) (simp del: findall.simps)
qed

text \<open>
  C8. The decode of the transport text is defined on every string: ``0'' gives the
  set with TCP alone, ``1'' the set with RDMA alone, every other string the set of both;
  and the transport types of a decoded volume are this decode of the text of its
  \<open>transport\<close> element.
\<close>

theorem transport_decode_total:
  "set (transportTypeOf (Some s))
     = (if s = ''0'' then {TCP} else if s = ''1'' then {RDMA} else {TCP, RDMA})
   \<and> (parseVolume el = Some v \<longrightarrow>
        (\<exists>t. text_at [''transport''] el = Some t \<and> transportType v = transportTypeOf t))"
  using parseVolume_Some(4) [of el v] by (auto simp: transportTypeOf_def)

theorem transport_decode_total_witness:
  "parseVolume (volume_el ''vol1'' ''3'' ''2'' [brick_el ''h1:/b1'' ''9a0b'']) = Some short_volume
   \<and> text_at [''transport''] (volume_el ''vol1'' ''3'' ''2'' [brick_el ''h1:/b1'' ''9a0b''])
       = Some (Some ''2'')
   \<and> set (transportTypeOf (Some ''2'')) = {TCP, RDMA}
   \<and> transportType short_volume = transportTypeOf (Some ''2'')"
proof -
  have t: "text_at [''transport''] (volume_el ''vol1'' ''3'' ''2'' [brick_el ''h1:/b1'' ''9a0b''])
             = Some (Some ''2'')"
    by code_simp
  from transport_decode_total [of "''2''" "volume_el ''vol1'' ''3'' ''2'' [brick_el ''h1:/b1'' ''9a0b'']"
      short_volume] short_el_parse t
  show ?thesis by simp
qed

section \<open>Status tokens\<close>

lemma of_char_upper_char:
  "(of_char (upper_char c) :: nat)
     = (if 97 \<le> (of_char c :: nat) \<and> (of_char c :: nat) \<le> 122 then of_char c - 32
        else of_char c)"
proof (cases "97 \<le> (of_char c :: nat) \<and> (of_char c :: nat) \<le> 122")
  case True
  then have "(of_char c :: nat) - 32 < 256" by arith
  then have "((of_char c :: nat) - 32) mod 256 = of_char c - 32" by (rule mod_less)
  with True show ?thesis by (simp add: upper_char_def Let_def)
next
  case False
  then show ?thesis by (auto simp: upper_char_def Let_def)
qed

lemma upper_char_idem: "upper_char (upper_char c) = upper_char c"
proof -
  have "(of_char (upper_char (upper_char c)) :: nat) = of_char (upper_char c)"
    by (simp add: of_char_upper_char) arith
  then show ?thesis by (simp only: of_char_eq_iff)
qed

lemma upper_char_space: "upper_char c = CHR '' '' \<longleftrightarrow> c = CHR '' ''"
proof -
  have "(of_char (upper_char c) :: nat) = of_char CHR '' ''
          \<longleftrightarrow> (of_char c :: nat) = of_char CHR '' ''"
    by (simp add: of_char_upper_char) arith
  then show ?thesis by (simp only: of_char_eq_iff)
qed

lemma upper_char_hyphen: "upper_char c = CHR ''-'' \<longleftrightarrow> c = CHR ''-''"
proof -
  have "(of_char (upper_char c) :: nat) = of_char CHR ''-''
          \<longleftrightarrow> (of_char c :: nat) = of_char CHR ''-''"
    by (simp add: of_char_upper_char) arith
  then show ?thesis by (simp only: of_char_eq_iff)
qed

lemma upper_char_underscore: "upper_char CHR ''_'' = CHR ''_''"
  by (simp add: upper_char_def)

text \<open>The two orders in which the module replaces and upper-cases give one function.\<close>

lemma rebalanceStatusStr_eq_taskStatusStr: "rebalanceStatusStr s = taskStatusStr s"
  by (induction s)
     (auto simp: rebalanceStatusStr_def taskStatusStr_def upper_def replace1_def
        upper_char_underscore upper_char_space upper_char_hyphen)

lemma normalized_fixed: "is_normalized_token t \<Longrightarrow> taskStatusStr t = t"
  by (induction t) (auto simp: is_normalized_token_def taskStatusStr_def upper_def replace1_def)

lemma taskStatusStr_normalized: "is_normalized_token (taskStatusStr s)"
  by (induction s)
     (auto simp: is_normalized_token_def taskStatusStr_def upper_def replace1_def
        upper_char_underscore upper_char_idem upper_char_space upper_char_hyphen)

lemma layout_token_normalized: "is_normalized_token ''FIX_LAYOUT_IN_PROGRESS''"
  by code_simp

text \<open>
  C9. Normalizing a status token that is already normalized (no space, no hyphen, no
  lower-case letter) gives the token back, in both places where the module normalizes;
  every result of the normalization is such a token, so normalizing twice is
  normalizing once.
\<close>

theorem status_normalization_idempotent:
  "(is_normalized_token t \<longrightarrow> rebalanceStatusStr t = t \<and> taskStatusStr t = t)
   \<and> is_normalized_token (rebalanceStatusStr s)
   \<and> is_normalized_token (taskStatusStr s)
   \<and> rebalanceStatusStr (rebalanceStatusStr s) = rebalanceStatusStr s
   \<and> taskStatusStr (taskStatusStr s) = taskStatusStr s"
  by (simp add: rebalanceStatusStr_eq_taskStatusStr normalized_fixed taskStatusStr_normalized)

theorem status_normalization_idempotent_witness:
  "is_normalized_token ''FIX_LAYOUT_IN_PROGRESS''
   \<and> rebalanceStatusStr ''FIX_LAYOUT_IN_PROGRESS'' = ''FIX_LAYOUT_IN_PROGRESS''
   \<and> taskStatusStr ''FIX_LAYOUT_IN_PROGRESS'' = ''FIX_LAYOUT_IN_PROGRESS''
   \<and> rebalanceStatusStr ''fix-layout in progress'' = ''FIX_LAYOUT_IN_PROGRESS''"
proof -
  have "rebalanceStatusStr ''fix-layout in progress'' = ''FIX_LAYOUT_IN_PROGRESS''"
    by code_simp
  with status_normalization_idempotent [of "''FIX_LAYOUT_IN_PROGRESS''" "''x''"]
    layout_token_normalized
  show ?thesis by simp
qed

end
